theory Spec2Isabelle
  imports Main
begin

section \<open>Python strings\<close>

text \<open>
  The product names of \<^verbatim>\<open>script.py\<close> are Python \<^verbatim>\<open>str\<close> values. They are modelled as
  \<^typ>\<open>string\<close>, one \<^typ>\<open>char\<close> per character, read as ASCII: the character classes
  below are the restrictions of Python's \<^verbatim>\<open>\s\<close>, \<^verbatim>\<open>\d\<close>, \<^verbatim>\<open>\w\<close> and of
  \<^verbatim>\<open>str.lower\<close> to the codes 0..127, and a code above 127 is in no class and has no case.
  Every product name in the script's own list is ASCII.
\<close>

definition ord :: "char \<Rightarrow> nat" where
  "ord c = of_char c"

text \<open>\<^verbatim>\<open>\s\<close> and \<^verbatim>\<open>str.isspace\<close>: tab, line feed, vertical tab, form feed, carriage
  return, the four separators 0x1C..0x1F and the space.\<close>

definition is_space :: "char \<Rightarrow> bool" where
  "is_space c = ((9 \<le> ord c \<and> ord c \<le> 13) \<or> (28 \<le> ord c \<and> ord c \<le> 32))"

definition is_digit :: "char \<Rightarrow> bool" where
  "is_digit c = (48 \<le> ord c \<and> ord c \<le> 57)"

definition is_upper :: "char \<Rightarrow> bool" where
  "is_upper c = (65 \<le> ord c \<and> ord c \<le> 90)"

definition is_lower :: "char \<Rightarrow> bool" where
  "is_lower c = (97 \<le> ord c \<and> ord c \<le> 122)"

text \<open>\<^verbatim>\<open>\w\<close>: letters, digits and the underscore.\<close>

definition is_word :: "char \<Rightarrow> bool" where
  "is_word c = (is_upper c \<or> is_lower c \<or> is_digit c \<or> c = CHR ''_'')"

definition lower_char :: "char \<Rightarrow> char" where
  "lower_char c = (if is_upper c then char_of (ord c + 32) else c)"

text \<open>\<^verbatim>\<open>s.lower()\<close>\<close>

definition lower :: "string \<Rightarrow> string" where
  "lower s = map lower_char s"

text \<open>\<^verbatim>\<open>s.startswith(p)\<close>\<close>

fun startswith :: "string \<Rightarrow> string \<Rightarrow> bool" where
  "startswith s [] = True"
| "startswith [] (p # ps) = False"
| "startswith (c # cs) (p # ps) = (c = p \<and> startswith cs ps)"

text \<open>\<^verbatim>\<open>sub in s\<close> for strings: \<open>sub\<close> occurs in \<open>s\<close> as a contiguous run.\<close>

fun contains :: "string \<Rightarrow> string \<Rightarrow> bool" where
  "contains [] sub = (sub = [])"
| "contains (c # cs) sub = (startswith (c # cs) sub \<or> contains cs sub)"

text \<open>\<^verbatim>\<open>s.strip()\<close> without arguments removes leading and trailing whitespace.\<close>

definition lstrip :: "string \<Rightarrow> string" where
  "lstrip s = dropWhile is_space s"

definition rstrip :: "string \<Rightarrow> string" where
  "rstrip s = rev (dropWhile is_space (rev s))"

definition strip :: "string \<Rightarrow> string" where
  "strip s = rstrip (lstrip s)"

text \<open>\<^verbatim>\<open>s.replace(a, b)\<close> for single characters \<open>a\<close> and \<open>b\<close>.\<close>

definition replace_char :: "char \<Rightarrow> char \<Rightarrow> string \<Rightarrow> string" where
  "replace_char a b s = map (\<lambda>c. if c = a then b else c) s"

section \<open>The name normalizer\<close>

text \<open>
  \<^verbatim>\<open>clean_product_name\<close> applies two \<^verbatim>\<open>re.sub\<close> calls with \<^verbatim>\<open>re.IGNORECASE\<close> and then
  \<^verbatim>\<open>strip()\<close>. Both patterns are anchored, so each replaces at most one match, and each
  is written out as the matcher the regular expression denotes.
\<close>

text \<open>A literal of the pattern matched at the start of \<open>s\<close> ignoring case: the rest of
  \<open>s\<close> behind it, or \<open>None\<close>.\<close>

definition match_literal_ci :: "string \<Rightarrow> string \<Rightarrow> string option" where
  "match_literal_ci lit s =
     (if length lit \<le> length s \<and> lower (take (length lit) s) = lower lit
      then Some (drop (length lit) s) else None)"

text \<open>\<^verbatim>\<open>\s+\<close> at the start of \<open>s\<close>: greedy, at least one character.\<close>

definition match_spaces :: "string \<Rightarrow> string option" where
  "match_spaces s =
     (case s of [] \<Rightarrow> None
      | c # cs \<Rightarrow> if is_space c then Some (dropWhile is_space cs) else None)"

text \<open>\<^verbatim>\<open>Set Of \d+\<close>: the literal, then the longest run of digits, which must not be
  empty. A shorter run of digits would be followed by a digit, where \<^verbatim>\<open>\s+\<close> fails, so
  backtracking into \<^verbatim>\<open>\d+\<close> finds nothing more.\<close>

definition match_set_of :: "string \<Rightarrow> string option" where
  "match_set_of s =
     (case match_literal_ci ''Set Of '' s of
        None \<Rightarrow> None
      | Some r \<Rightarrow> if takeWhile is_digit r = [] then None else Some (dropWhile is_digit r))"

text \<open>The alternatives of the group in the pattern's order; the first one that can be
  followed by \<^verbatim>\<open>\s+\<close> wins.\<close>

definition prefix_alternatives :: "(string \<Rightarrow> string option) list" where
  "prefix_alternatives =
     [match_set_of, match_literal_ci ''Large'', match_literal_ci ''Medium'',
      match_literal_ci ''Small'']"

fun first_match :: "(string \<Rightarrow> string option) list \<Rightarrow> string \<Rightarrow> string option" where
  "first_match [] s = None"
| "first_match (alt # alts) s =
     (case alt s of
        None \<Rightarrow> first_match alts s
      | Some r \<Rightarrow> (case match_spaces r of
                    None \<Rightarrow> first_match alts s
                  | Some r' \<Rightarrow> Some r'))"

text \<open>\<^verbatim>\<open>^(Set Of \d+|Large|Medium|Small)\s+\<close> matched at position 0: what follows the
  match.\<close>

definition match_prefix_pattern :: "string \<Rightarrow> string option" where
  "match_prefix_pattern s = first_match prefix_alternatives s"

definition sub_prefix_pattern :: "string \<Rightarrow> string" where
  "sub_prefix_pattern s = (case match_prefix_pattern s of None \<Rightarrow> s | Some r \<Rightarrow> r)"

text \<open>
  \<^verbatim>\<open>\s+(Design|Style|Holder|Metal|Sign)$\<close>. Without \<^verbatim>\<open>re.MULTILINE\<close>, \<^verbatim>\<open>$\<close> matches at
  the end of the string and just before a line feed that ends the string. No descriptor
  ends in a line feed, so in a string that ends in one the word has to end just before it.
  \<open>split_final_newline\<close> gives the part the word must end, and the line feed kept behind
  the match.
\<close>

definition split_final_newline :: "string \<Rightarrow> string \<times> string" where
  "split_final_newline s =
     (if s \<noteq> [] \<and> last s = CHR 0x0A then (butlast s, [CHR 0x0A]) else (s, []))"

definition descriptors :: "string list" where
  "descriptors = [''Design'', ''Style'', ''Holder'', ''Metal'', ''Sign'']"

text \<open>The descriptor \<open>d\<close> ends \<open>core\<close> ignoring case with whitespace just before it: the
  text before that whitespace. The leftmost match starts where the whitespace run
  starts, so the whole run goes.\<close>

definition match_descriptor :: "string \<Rightarrow> string \<Rightarrow> string option" where
  "match_descriptor core d =
     (let n = length core - length d; front = take n core in
      if length d \<le> length core \<and> lower (drop n core) = lower d
         \<and> front \<noteq> [] \<and> is_space (last front)
      then Some (rstrip front) else None)"

fun first_descriptor :: "string \<Rightarrow> string list \<Rightarrow> string option" where
  "first_descriptor core [] = None"
| "first_descriptor core (d # ds) =
     (case match_descriptor core d of
        None \<Rightarrow> first_descriptor core ds
      | Some b \<Rightarrow> Some b)"

definition match_suffix_pattern :: "string \<Rightarrow> string option" where
  "match_suffix_pattern s =
     (let (core, nl) = split_final_newline s in
      case first_descriptor core descriptors of
        None \<Rightarrow> None
      | Some b \<Rightarrow> Some (b @ nl))"

definition sub_suffix_pattern :: "string \<Rightarrow> string" where
  "sub_suffix_pattern s = (case match_suffix_pattern s of None \<Rightarrow> s | Some r \<Rightarrow> r)"

definition clean_product_name :: "string \<Rightarrow> string" where
  "clean_product_name name = strip (sub_suffix_pattern (sub_prefix_pattern name))"

section \<open>The placeholder generator\<close>

text \<open>
  \<^verbatim>\<open>urllib.parse.quote_plus(s)\<close> with its default \<^verbatim>\<open>safe=''\<close>: letters, digits and
  \<^verbatim>\<open>_.-~\<close> stay, a space becomes \<^verbatim>\<open>+\<close>, and every other character becomes \<^verbatim>\<open>%XX\<close>
  with two upper-case hexadecimal digits. As in the library, a string with a space is
  quoted with the space kept and the spaces are replaced afterwards.
\<close>

definition hex_digit :: "nat \<Rightarrow> char" where
  "hex_digit n = (if n < 10 then char_of (48 + n) else char_of (55 + n))"

definition always_safe :: "char \<Rightarrow> bool" where
  "always_safe c = (is_upper c \<or> is_lower c \<or> is_digit c \<or> c \<in> set ''_.-~'')"

definition quote_char :: "string \<Rightarrow> char \<Rightarrow> string" where
  "quote_char safe c =
     (if always_safe c \<or> c \<in> set safe then [c]
      else [CHR ''%'', hex_digit (ord c div 16), hex_digit (ord c mod 16)])"

definition quote :: "string \<Rightarrow> string \<Rightarrow> string" where
  "quote s safe = concat (map (quote_char safe) s)"

definition quote_plus :: "string \<Rightarrow> string" where
  "quote_plus s =
     (if CHR '' '' \<notin> set s then quote s []
      else replace_char (CHR '' '') (CHR ''+'') (quote s '' ''))"

text \<open>\<^verbatim>\<open>re.sub(r'[^\w\s-]', '', product_name)\<close> deletes every character that is not a
  word character, whitespace or a hyphen.\<close>

definition sub_punctuation :: "string \<Rightarrow> string" where
  "sub_punctuation s = filter (\<lambda>c. is_word c \<or> is_space c \<or> c = CHR ''-'') s"

text \<open>\<^verbatim>\<open>re.sub(r'[\s_-]+', '+', text)\<close> replaces every maximal run of whitespace,
  underscores and hyphens by one \<^verbatim>\<open>+\<close>.\<close>

definition is_separator :: "char \<Rightarrow> bool" where
  "is_separator c = (is_space c \<or> c = CHR ''_'' \<or> c = CHR ''-'')"

function sub_separators :: "string \<Rightarrow> string" where
  "sub_separators [] = []"
| "sub_separators (c # cs) =
     (if is_separator c then CHR ''+'' # sub_separators (dropWhile is_separator cs)
      else c # sub_separators cs)"
  by pat_completeness auto
termination
proof (relation "measure length")
  show "wf (measure length)" by simp
next
  fix c :: char and cs :: string
  assume "is_separator c"
  have "length (dropWhile is_separator cs) \<le> length cs" by (rule length_dropWhile_le)
  then show "(dropWhile is_separator cs, c # cs) \<in> measure length" by simp
next
  fix c :: char and cs :: string
  show "(cs, c # cs) \<in> measure length" by simp
qed

text \<open>One entry of the \<^verbatim>\<open>themes\<close> dictionary. The icon, kept as its code point, is never
  read by the script.\<close>

record theme_style =
  bg :: string
  fg :: string
  icon :: nat

text \<open>The dictionary in its insertion order, which is the order \<^verbatim>\<open>themes.items()\<close>
  iterates in.\<close>

definition themes :: "(string \<times> theme_style) list" where
  "themes =
     [(''kitchen'',   \<lparr>bg = ''2C3E50'', fg = ''ECF0F1'', icon = 0x1F373\<rparr>),
      (''storage'',   \<lparr>bg = ''3498DB'', fg = ''FFFFFF'', icon = 0x1F4E6\<rparr>),
      (''christmas'', \<lparr>bg = ''C0392B'', fg = ''FFFFFF'', icon = 0x1F384\<rparr>),
      (''toy'',       \<lparr>bg = ''F39C12'', fg = ''FFFFFF'', icon = 0x1F9F8\<rparr>),
      (''bottle'',    \<lparr>bg = ''8E44AD'', fg = ''FFFFFF'', icon = 0x1F37C\<rparr>),
      (''home'',      \<lparr>bg = ''27AE60'', fg = ''FFFFFF'', icon = 0x1F3E0\<rparr>),
      (''tea'',       \<lparr>bg = ''16A085'', fg = ''FFFFFF'', icon = 0x2615\<rparr>),
      (''metal'',     \<lparr>bg = ''7F8C8D'', fg = ''FFFFFF'', icon = 0x1F527\<rparr>)]"

definition theme_keywords :: "(string \<times> string list) list" where
  "theme_keywords =
     [(''kitchen'',   [''mug'', ''tea'', ''coffee'', ''sugar'', ''dispenser'', ''jar'', ''cake'', ''tin'']),
      (''storage'',   [''storage'', ''box'', ''crate'', ''tin'', ''holder'', ''container'']),
      (''christmas'', [''christmas'', ''star'', ''stocking'', ''xmas'']),
      (''toy'',       [''toy'', ''dolly'', ''spaceboy'', ''bubbles'', ''children'']),
      (''bottle'',    [''bottle'', ''water'', ''hot'']),
      (''home'',      [''door'', ''wall'', ''clock'', ''sign'', ''hanger'']),
      (''tea'',       [''tea'', ''coffee'']),
      (''metal'',     [''metal'', ''sign'', ''zinc'', ''wire''])]"

text \<open>\<^verbatim>\<open>keywords.get(category, [])\<close> on the dictionary above, here \<open>theme_keywords\<close>.\<close>

definition keywords_get :: "string \<Rightarrow> string list" where
  "keywords_get category = (case map_of theme_keywords category of None \<Rightarrow> [] | Some ws \<Rightarrow> ws)"

text \<open>The condition of the \<^verbatim>\<open>if\<close> in the loop over the themes.\<close>

definition category_matches :: "string \<Rightarrow> string \<Rightarrow> bool" where
  "category_matches category product_lower =
     (contains product_lower category
      \<or> list_ex (\<lambda>word. contains product_lower word) (keywords_get category))"

text \<open>The loop \<^verbatim>\<open>for category, style in themes.items()\<close>, which assigns and leaves at
  the first category that matches; \<open>theme\<close> is the value the variable has so far.\<close>

fun choose_theme :: "(string \<times> theme_style) list \<Rightarrow> string \<Rightarrow> theme_style \<Rightarrow> theme_style" where
  "choose_theme [] product_lower theme = theme"
| "choose_theme ((category, style) # rest) product_lower theme =
     (if category_matches category product_lower then style
      else choose_theme rest product_lower theme)"

text \<open>\<^verbatim>\<open>themes['home']\<close>, the value \<^verbatim>\<open>theme\<close> starts with.\<close>

definition default_theme :: theme_style where
  "default_theme = \<lparr>bg = ''27AE60'', fg = ''FFFFFF'', icon = 0x1F3E0\<rparr>"

definition placeholder_text :: "string \<Rightarrow> string" where
  "placeholder_text product_name = take 25 (sub_separators (sub_punctuation product_name))"

definition placeholder_url :: "theme_style \<Rightarrow> string \<Rightarrow> string" where
  "placeholder_url theme txt =
     ''https://via.placeholder.com/400x300/'' @ bg theme @ ''/'' @ fg theme
       @ ''?text='' @ quote_plus txt"

definition generate_smart_placeholder :: "string \<Rightarrow> string" where
  "generate_smart_placeholder product_name =
     (let txt = placeholder_text product_name;
          theme = choose_theme themes (lower product_name) default_theme
      in placeholder_url theme txt)"

section \<open>The fetcher and the world it talks to\<close>

text \<open>
  Everything the fetcher does beyond computing on strings goes through the network, the
  random number generator and the clock. These are the world, a state of an arbitrary
  type \<open>'w\<close> that every effect takes and returns. An effect either returns a value or
  raises an exception (a subclass of \<^verbatim>\<open>Exception\<close>, kept as its message).
\<close>

datatype 'a outcome = Returns 'a | Raises string

text \<open>What \<^verbatim>\<open>validate_image_url\<close> reads of the response to a \<^verbatim>\<open>HEAD\<close> request:
  \<^verbatim>\<open>response.status_code\<close> and the \<^verbatim>\<open>content-type\<close> header, which may be absent.\<close>

record response =
  status_code :: int
  content_type :: "string option"

text \<open>
  The four search methods fetch pages and parse them with \<^verbatim>\<open>BeautifulSoup\<close>, \<^verbatim>\<open>json\<close>
  and \<^verbatim>\<open>re\<close>; what the pipeline sees of a search method is the \<^verbatim>\<open>Optional[str]\<close> it
  returns, or an exception. A search method is therefore an effect of the world that
  takes the cleaned name, and the statements below hold for whatever the network answers.
  The methods of the script catch every \<^verbatim>\<open>Exception\<close> themselves, so \<open>Raises\<close> is more
  than they do; the pipeline has a handler for it all the same.
\<close>

type_synonym 'w search_method = "string \<Rightarrow> 'w \<Rightarrow> string option outcome \<times> 'w"

text \<open>
  \<open>session_head\<close> is \<^verbatim>\<open>self.session.head(url, timeout=10)\<close>. \<open>random_uniform\<close> is
  \<^verbatim>\<open>random.uniform(*self.delay_range)\<close>, whose result stays in the world, and
  \<open>time_sleep\<close> is \<^verbatim>\<open>time.sleep(delay)\<close> on that result; \<^verbatim>\<open>time.sleep\<close> raises
  \<^verbatim>\<open>ValueError\<close> on a negative delay.
\<close>

record 'w fetcher =
  search_duckduckgo_images :: "'w search_method"
  search_bing_images :: "'w search_method"
  search_shopping_sites :: "'w search_method"
  search_direct_product_search :: "'w search_method"
  session_head :: "string \<Rightarrow> 'w \<Rightarrow> response outcome \<times> 'w"
  random_uniform :: "'w \<Rightarrow> unit outcome \<times> 'w"
  time_sleep :: "'w \<Rightarrow> unit outcome \<times> 'w"

text \<open>The dataclass \<^verbatim>\<open>ProductImage\<close>.\<close>

record ProductImage =
  name :: string
  image_url :: string
  source :: string
  alt_text :: string

text \<open>The lines the pipeline prints, one constructor for each \<^verbatim>\<open>print\<close> of
  \<^verbatim>\<open>fetch_product_image\<close> and \<^verbatim>\<open>fetch_all_images\<close>, with the values it formats.\<close>

datatype message =
    Starting_to_fetch nat
  | Progress nat nat
  | Searching_for string
  | Found_image_via string
  | Found_URL_but_validation_failed string
  | Method_failed string string
  | Using_themed_placeholder
  | Waiting
  | Error_processing string string

section \<open>The URL validator\<close>

definition image_extensions :: "string list" where
  "image_extensions = [''.jpg'', ''.jpeg'', ''.png'', ''.gif'', ''.webp'', ''.bmp'']"

text \<open>\<^verbatim>\<open>response.headers.get('content-type', '')\<close>\<close>

definition headers_get_content_type :: "response \<Rightarrow> string" where
  "headers_get_content_type r = (case content_type r of None \<Rightarrow> [] | Some v \<Rightarrow> v)"

text \<open>The expression \<^verbatim>\<open>validate_image_url\<close> returns when the request has returned.\<close>

definition response_is_image :: "string \<Rightarrow> response \<Rightarrow> bool" where
  "response_is_image url r =
     (status_code r = 200
      \<and> (contains (lower (headers_get_content_type r)) ''image''
         \<or> list_ex (\<lambda>ext. contains (lower url) ext) image_extensions))"

text \<open>The bare \<^verbatim>\<open>except:\<close> turns every exception into \<^verbatim>\<open>False\<close>, so the validator
  returns a truth value whatever happens.\<close>

definition validate_image_url :: "'w fetcher \<Rightarrow> string \<Rightarrow> 'w \<Rightarrow> bool \<times> 'w" where
  "validate_image_url self url w =
     (case session_head self url w of
        (Raises e, w') \<Rightarrow> (False, w')
      | (Returns r, w') \<Rightarrow> (response_is_image url r, w'))"

section \<open>The resolution pipeline\<close>

text \<open>The list \<^verbatim>\<open>search_methods\<close> of \<^verbatim>\<open>fetch_product_image\<close>.\<close>

definition search_methods :: "'w fetcher \<Rightarrow> (string \<times> 'w search_method) list" where
  "search_methods self =
     [(''DuckDuckGo'', search_duckduckgo_images self),
      (''Bing Images'', search_bing_images self),
      (''Shopping Sites'', search_shopping_sites self),
      (''Direct Search'', search_direct_product_search self)]"

text \<open>\<^verbatim>\<open>method_name.lower().replace(' ', '_')\<close>\<close>

definition source_of_method :: "string \<Rightarrow> string" where
  "source_of_method method_name = replace_char (CHR '' '') (CHR ''_'') (lower method_name)"

text \<open>
  The \<^verbatim>\<open>for\<close> loop over the search methods. Its variables are \<^verbatim>\<open>image_url\<close> (\<^verbatim>\<open>None\<close> or
  a string) and \<^verbatim>\<open>source\<close>, here \<open>cur_url\<close> and \<open>cur_source\<close>, and the lines printed so far. The first component of the result
  tells whether the loop was left by \<^verbatim>\<open>break\<close>. An empty string is false in a Python
  condition, as \<^verbatim>\<open>None\<close> is. Whatever a method returns is assigned to \<^verbatim>\<open>image_url\<close>,
  also when the validator then rejects it; a method that raises assigns nothing.
\<close>

fun search_loop ::
  "'w fetcher \<Rightarrow> (string \<times> 'w search_method) list \<Rightarrow> string \<Rightarrow> string option \<Rightarrow> string
     \<Rightarrow> message list \<Rightarrow> 'w \<Rightarrow> bool \<times> string option \<times> string \<times> message list \<times> 'w" where
  "search_loop self [] cleaned_name cur_url cur_source out w =
     (False, cur_url, cur_source, out, w)"
| "search_loop self ((method_name, method) # rest) cleaned_name cur_url cur_source out w =
     (case method cleaned_name w of
        (Raises e, w1) \<Rightarrow>
          search_loop self rest cleaned_name cur_url cur_source
            (out @ [Method_failed method_name e]) w1
      | (Returns None, w1) \<Rightarrow>
          search_loop self rest cleaned_name None cur_source out w1
      | (Returns (Some url), w1) \<Rightarrow>
          (if url = [] then search_loop self rest cleaned_name (Some url) cur_source out w1
           else (case validate_image_url self url w1 of
                   (True, w2) \<Rightarrow>
                     (True, Some url, source_of_method method_name,
                      out @ [Found_image_via method_name], w2)
                 | (False, w2) \<Rightarrow>
                     search_loop self rest cleaned_name (Some url) cur_source
                       (out @ [Found_URL_but_validation_failed method_name]) w2)))"

text \<open>\<^verbatim>\<open>fetch_product_image\<close>: the record, the lines printed and the world afterwards.
  \<^verbatim>\<open>if not image_url\<close> holds for \<^verbatim>\<open>None\<close> and for the empty string.\<close>

definition fetch_product_image ::
  "'w fetcher \<Rightarrow> string \<Rightarrow> 'w \<Rightarrow> ProductImage \<times> message list \<times> 'w" where
  "fetch_product_image self product_name w =
     (let cleaned_name = clean_product_name product_name;
          (found, cur_url, cur_source, out, w') =
             search_loop self (search_methods self) cleaned_name None ''placeholder''
               [Searching_for product_name] w;
          (final_url, final_source, out') =
             (case cur_url of
                None \<Rightarrow> (generate_smart_placeholder product_name, ''smart_placeholder'',
                          out @ [Using_themed_placeholder])
              | Some url \<Rightarrow>
                  if url = []
                  then (generate_smart_placeholder product_name, ''smart_placeholder'',
                        out @ [Using_themed_placeholder])
                  else (url, cur_source, out))
      in (\<lparr>name = product_name, image_url = final_url, source = final_source,
           alt_text = ''Image of '' @ product_name\<rparr>, out', w'))"

section \<open>The batch\<close>

text \<open>The record the \<^verbatim>\<open>except\<close> branch of \<^verbatim>\<open>fetch_all_images\<close> appends.\<close>

definition error_placeholder :: "string \<Rightarrow> ProductImage" where
  "error_placeholder product_name =
     \<lparr>name = product_name, image_url = generate_smart_placeholder product_name,
      source = ''error_placeholder'', alt_text = ''Placeholder for '' @ product_name\<rparr>"

text \<open>
  The rate limiting inside the \<^verbatim>\<open>try\<close>, after the record has been appended: draw the
  delay, print it, sleep. The result is the exception that leaves the \<^verbatim>\<open>try\<close>, if any.
\<close>

definition rate_limit :: "'w fetcher \<Rightarrow> 'w \<Rightarrow> string option \<times> message list \<times> 'w" where
  "rate_limit self w =
     (case random_uniform self w of
        (Raises e, w1) \<Rightarrow> (Some e, [], w1)
      | (Returns _, w1) \<Rightarrow>
          (case time_sleep self w1 of
             (Raises e, w2) \<Rightarrow> (Some e, [Waiting], w2)
           | (Returns _, w2) \<Rightarrow> (None, [Waiting], w2)))"

text \<open>
  The loop \<^verbatim>\<open>for i, product_name in enumerate(product_names, 1)\<close>. Nothing in
  \<^verbatim>\<open>fetch_product_image\<close> lets an \<^verbatim>\<open>Exception\<close> out, so within the \<^verbatim>\<open>try\<close> only the rate
  limiting can reach the \<^verbatim>\<open>except\<close> branch, and it does so after \<^verbatim>\<open>results.append\<close>.
\<close>

fun batch_loop ::
  "'w fetcher \<Rightarrow> nat \<Rightarrow> nat \<Rightarrow> string list \<Rightarrow> ProductImage list \<Rightarrow> message list \<Rightarrow> 'w
     \<Rightarrow> ProductImage list \<times> message list \<times> 'w" where
  "batch_loop self total_n i [] results out w = (results, out, w)"
| "batch_loop self total_n i (product_name # rest) results out w =
     (case fetch_product_image self (strip product_name) w of
        (product_image, out1, w1) \<Rightarrow>
          (if i < total_n then
             (case rate_limit self w1 of
                (None, out2, w2) \<Rightarrow>
                  batch_loop self total_n (i + 1) rest (results @ [product_image])
                    (out @ [Progress i total_n] @ out1 @ out2) w2
              | (Some e, out2, w2) \<Rightarrow>
                  batch_loop self total_n (i + 1) rest
                    (results @ [product_image] @ [error_placeholder product_name])
                    (out @ [Progress i total_n] @ out1 @ out2 @ [Error_processing product_name e])
                    w2)
           else batch_loop self total_n (i + 1) rest (results @ [product_image])
                  (out @ [Progress i total_n] @ out1) w1))"

definition fetch_all_images ::
  "'w fetcher \<Rightarrow> string list \<Rightarrow> 'w \<Rightarrow> ProductImage list \<times> message list \<times> 'w" where
  "fetch_all_images self product_names w =
     (let total_n = length product_names
      in batch_loop self total_n 1 product_names [] [Starting_to_fetch total_n] w)"

section \<open>Worlds to run the fetcher in\<close>

text \<open>
  A world that only records what the fetcher asks of it: the state is the list of calls
  made so far, and the answers are fixed functions of the call. \<open>answer\<close> takes the name
  of the search method and the cleaned product name.
\<close>

datatype call =
    Search_call string string
  | Head_call string
  | Uniform_call
  | Sleep_call

definition recording_fetcher ::
  "(string \<Rightarrow> string \<Rightarrow> string option outcome) \<Rightarrow> (string \<Rightarrow> response outcome)
     \<Rightarrow> unit outcome \<Rightarrow> call list fetcher" where
  "recording_fetcher answer head sleep =
     \<lparr>search_duckduckgo_images = (\<lambda>n w. (answer ''DuckDuckGo'' n, w @ [Search_call ''DuckDuckGo'' n])),
      search_bing_images = (\<lambda>n w. (answer ''Bing Images'' n, w @ [Search_call ''Bing Images'' n])),
      search_shopping_sites =
        (\<lambda>n w. (answer ''Shopping Sites'' n, w @ [Search_call ''Shopping Sites'' n])),
      search_direct_product_search =
        (\<lambda>n w. (answer ''Direct Search'' n, w @ [Search_call ''Direct Search'' n])),
      session_head = (\<lambda>u w. (head u, w @ [Head_call u])),
      random_uniform = (\<lambda>w. (Returns (), w @ [Uniform_call])),
      time_sleep = (\<lambda>w. (sleep, w @ [Sleep_call]))\<rparr>"

text \<open>No search method finds anything.\<close>

definition no_answer :: "string \<Rightarrow> string \<Rightarrow> string option outcome" where
  "no_answer method_name n = Returns None"

text \<open>Every request fails in transport.\<close>

definition head_unreachable :: "string \<Rightarrow> response outcome" where
  "head_unreachable u = Raises ''connection refused''"

text \<open>Every search method returns the empty string.\<close>

definition empty_answer :: "string \<Rightarrow> string \<Rightarrow> string option outcome" where
  "empty_answer method_name n = Returns (Some [])"

text \<open>
  Only the media repository has a hit. \<^verbatim>\<open>search_direct_product_search\<close> returns the
  \<^verbatim>\<open>Special:FilePath\<close> address of the first title, and that address answers a
  \<^verbatim>\<open>HEAD\<close> request with a redirect, which \<^verbatim>\<open>session.head\<close> does not follow.
\<close>

definition wikimedia_answer :: "string \<Rightarrow> string \<Rightarrow> string option outcome" where
  "wikimedia_answer method_name n =
     (if method_name = ''Direct Search''
      then Returns (Some ''https://commons.wikimedia.org/wiki/Special:FilePath/Popcorn_machine.jpg'')
      else Returns None)"

definition head_redirect :: "string \<Rightarrow> response outcome" where
  "head_redirect u = Returns \<lparr>status_code = 302, content_type = Some ''text/html; charset=UTF-8''\<rparr>"

text \<open>The first engine returns a page that is gone, the second an image that is there.\<close>

definition two_engines_answer :: "string \<Rightarrow> string \<Rightarrow> string option outcome" where
  "two_engines_answer method_name n =
     (if method_name = ''DuckDuckGo'' then Returns (Some ''https://img.example.com/popcorn'')
      else if method_name = ''Bing Images'' then Returns (Some ''https://cdn.example.com/popcorn.jpg'')
      else Returns None)"

definition two_engines_head :: "string \<Rightarrow> response outcome" where
  "two_engines_head u =
     (if u = ''https://cdn.example.com/popcorn.jpg''
      then Returns \<lparr>status_code = 200, content_type = Some ''image/jpeg''\<rparr>
      else Returns \<lparr>status_code = 404, content_type = Some ''text/html''\<rparr>)"

text \<open>A success without a body, as a server may answer a \<^verbatim>\<open>HEAD\<close> request.\<close>

definition head_no_content :: "string \<Rightarrow> response outcome" where
  "head_no_content u = Returns \<lparr>status_code = 204, content_type = Some ''image/png''\<rparr>"

text \<open>\<^verbatim>\<open>time.sleep\<close> on a negative delay, as with \<^verbatim>\<open>delay_range=(-2.0, -1.0)\<close>.\<close>

definition sleep_negative :: "unit outcome" where
  "sleep_negative = Raises ''sleep length must be non-negative''"

section \<open>The URL validator: what it accepts\<close>

text \<open>
  Claim C6. The validator returns true only if the \<^verbatim>\<open>HEAD\<close> request returned a response
  whose status is 200, the status of success, and either the content type, lower-cased,
  contains \<^verbatim>\<open>image\<close> or the URL, lower-cased, contains one of the image extensions. When
  the request raises, the validator returns false: its result is a truth value in every
  case, so nothing is propagated.
\<close>

theorem validate_image_url_only_if:
  "(fst (validate_image_url self url w) \<longrightarrow>
      (\<exists>r w'. session_head self url w = (Returns r, w') \<and> status_code r = 200
          \<and> (contains (lower (headers_get_content_type r)) ''image''
              \<or> (\<exists>ext \<in> set image_extensions. contains (lower url) ext))))
   \<and> (\<forall>e w'. session_head self url w = (Raises e, w')
         \<longrightarrow> validate_image_url self url w = (False, w'))"
  by (auto simp: validate_image_url_def response_is_image_def list_ex_iff
           split: prod.splits outcome.splits)

theorem validate_image_url_only_if_witness:
  "fst (validate_image_url (recording_fetcher no_answer two_engines_head (Returns ()))
          ''https://cdn.example.com/popcorn.jpg'' [])
   \<and> (\<exists>r w'. session_head (recording_fetcher no_answer two_engines_head (Returns ()))
                 ''https://cdn.example.com/popcorn.jpg'' [] = (Returns r, w')
              \<and> status_code r = 200)
   \<and> session_head (recording_fetcher no_answer head_unreachable (Returns ()))
        ''https://cdn.example.com/popcorn.jpg'' []
       = (Raises ''connection refused'', [Head_call ''https://cdn.example.com/popcorn.jpg''])
   \<and> validate_image_url (recording_fetcher no_answer head_unreachable (Returns ()))
        ''https://cdn.example.com/popcorn.jpg'' []
       = (False, [Head_call ''https://cdn.example.com/popcorn.jpg''])"
proof -
  let ?up = "recording_fetcher no_answer two_engines_head (Returns ())"
  let ?down = "recording_fetcher no_answer head_unreachable (Returns ())"
  let ?u = "''https://cdn.example.com/popcorn.jpg''"
  have accepted: "fst (validate_image_url ?up ?u [])"
    by code_simp
  have raised: "session_head ?down ?u [] = (Raises ''connection refused'', [Head_call ?u])"
    by code_simp
  from validate_image_url_only_if [of ?up ?u "[]"] accepted
  have "\<exists>r w'. session_head ?up ?u [] = (Returns r, w') \<and> status_code r = 200"
    by blast
  moreover from validate_image_url_only_if [of ?down ?u "[]"] raised
  have "validate_image_url ?down ?u [] = (False, [Head_call ?u])"
    by blast
  ultimately show ?thesis
    using accepted raised by blast
qed

text \<open>
  Claim C10. Only the status 200 counts: on a response with any other status, 204 and
  the redirects 301 and 302 among them, the validator returns false, whatever the content
  type and the URL are.
\<close>

theorem validate_image_url_status_200_only:
  "session_head self url w = (Returns r, w') \<Longrightarrow> status_code r \<noteq> 200
     \<Longrightarrow> validate_image_url self url w = (False, w')"
  by (simp add: validate_image_url_def response_is_image_def)

theorem validate_image_url_status_200_only_witness:
  "session_head (recording_fetcher no_answer head_no_content (Returns ()))
      ''https://cdn.example.com/popcorn.jpg'' []
     = (Returns \<lparr>status_code = 204, content_type = Some ''image/png''\<rparr>,
        [Head_call ''https://cdn.example.com/popcorn.jpg''])
   \<and> (204 :: int) \<noteq> 200
   \<and> validate_image_url (recording_fetcher no_answer head_no_content (Returns ()))
        ''https://cdn.example.com/popcorn.jpg'' []
       = (False, [Head_call ''https://cdn.example.com/popcorn.jpg''])"
proof -
  let ?f = "recording_fetcher no_answer head_no_content (Returns ())"
  let ?u = "''https://cdn.example.com/popcorn.jpg''"
  let ?r = "\<lparr>status_code = 204, content_type = Some ''image/png''\<rparr>"
  have answered: "session_head ?f ?u [] = (Returns ?r, [Head_call ?u])"
    by code_simp
  have other: "status_code ?r \<noteq> 200"
    by simp
  from validate_image_url_status_200_only [OF answered other] answered
  show ?thesis by simp
qed

section \<open>The pipeline: one product\<close>

lemma generate_smart_placeholder_nonempty: "generate_smart_placeholder product_name \<noteq> []"
  by (simp add: generate_smart_placeholder_def placeholder_url_def Let_def)

text \<open>What \<^verbatim>\<open>image_url\<close> holds after the loop: what it held before, \<^verbatim>\<open>None\<close>, the empty
  string, or a string that one of the methods of the list returned for the cleaned name.\<close>

lemma search_loop_url:
  "search_loop self ms cn u s out w = (b, u', s', out', w')
     \<Longrightarrow> u' = u \<or> u' = None \<or> u' = Some []
         \<or> (\<exists>url. u' = Some url
               \<and> (\<exists>method_name m w0 w1.
                     (method_name, m) \<in> set ms \<and> m cn w0 = (Returns (Some url), w1)))"
proof (induction ms arbitrary: u out w)
  case Nil
  then show ?case by simp
next
  case (Cons a ms)
  obtain method_name m where a: "a = (method_name, m)" by (cases a)
  obtain r w1 where call: "m cn w = (r, w1)" by (cases "m cn w")
  show ?case
  proof (cases r)
    case (Raises e)
    with Cons.prems call
    have "search_loop self ms cn u s (out @ [Method_failed method_name e]) w1
            = (b, u', s', out', w')"
      unfolding a by simp
    from Cons.IH [OF this] show ?thesis
      unfolding a by fastforce
  next
    case (Returns v)
    show ?thesis
    proof (cases v)
      case None
      with Cons.prems call Returns
      have "search_loop self ms cn None s out w1 = (b, u', s', out', w')"
        unfolding a by simp
      from Cons.IH [OF this] show ?thesis
        unfolding a by fastforce
    next
      case (Some url)
      have returned: "m cn w = (Returns (Some url), w1)"
        using call Returns Some by simp
      show ?thesis
      proof (cases "url = []")
        case True
        with Cons.prems returned
        have "search_loop self ms cn (Some []) s out w1 = (b, u', s', out', w')"
          unfolding a by simp
        from Cons.IH [OF this] show ?thesis
          unfolding a by fastforce
      next
        case False
        obtain ok w2 where checked: "validate_image_url self url w1 = (ok, w2)"
          by (cases "validate_image_url self url w1")
        show ?thesis
        proof (cases ok)
          case True
          with Cons.prems returned False checked have "u' = Some url"
            unfolding a by simp
          with returned show ?thesis
            unfolding a by fastforce
        next
          case rejected: False
          with Cons.prems returned False checked
          have "search_loop self ms cn (Some url) s
                  (out @ [Found_URL_but_validation_failed method_name]) w2
                = (b, u', s', out', w')"
            unfolding a by simp
          from Cons.IH [OF this] returned show ?thesis
            unfolding a by fastforce
        qed
      qed
    qed
  qed
qed

text \<open>The search methods of the two worlds in which nothing is found.\<close>

lemma no_answer_returns_none:
  "(method_name, m) \<in> set (search_methods (recording_fetcher no_answer head sleep))
     \<Longrightarrow> fst (m cn w0) = Returns None"
  by (auto simp: search_methods_def recording_fetcher_def no_answer_def)

lemma empty_answer_returns_empty:
  "(method_name, m) \<in> set (search_methods (recording_fetcher empty_answer head sleep))
     \<Longrightarrow> fst (m cn w0) = Returns (Some [])"
  by (auto simp: search_methods_def recording_fetcher_def empty_answer_def)

text \<open>
  Claim C4. Whatever the product name and whatever the search methods and the \<^verbatim>\<open>HEAD\<close>
  requests do, methods that return the empty string or raise included, the record of
  \<^verbatim>\<open>fetch_product_image\<close> has a non-empty \<^verbatim>\<open>image_url\<close>, and that URL is either a
  discovered one, a string that one of the four search methods returned for the cleaned
  name, or the URL the placeholder generator makes of the product name.
\<close>

theorem fetch_product_image_url_nonempty:
  "image_url (fst (fetch_product_image self product_name w)) \<noteq> []
   \<and> ((\<exists>method_name m w0 w1.
          (method_name, m) \<in> set (search_methods self)
          \<and> m (clean_product_name product_name) w0
              = (Returns (Some (image_url (fst (fetch_product_image self product_name w)))), w1))
      \<or> image_url (fst (fetch_product_image self product_name w))
           = generate_smart_placeholder product_name)"
proof -
  let ?cn = "clean_product_name product_name"
  obtain b u s out w' where
    loop: "search_loop self (search_methods self) ?cn None ''placeholder''
             [Searching_for product_name] w = (b, u, s, out, w')"
    by (cases "search_loop self (search_methods self) ?cn None ''placeholder''
                 [Searching_for product_name] w")
  show ?thesis
  proof (cases "u = None \<or> u = Some []")
    case True
    then have "image_url (fst (fetch_product_image self product_name w))
                 = generate_smart_placeholder product_name"
      using loop by (auto simp: fetch_product_image_def)
    then show ?thesis
      by (simp add: generate_smart_placeholder_nonempty)
  next
    case False
    with search_loop_url [OF loop] obtain url where
      u: "u = Some url" and
      found: "\<exists>method_name m w0 w1. (method_name, m) \<in> set (search_methods self)
                \<and> m ?cn w0 = (Returns (Some url), w1)"
      by blast
    from False u have "url \<noteq> []" by simp
    then have "image_url (fst (fetch_product_image self product_name w)) = url"
      using loop u by (simp add: fetch_product_image_def)
    then show ?thesis
      using found \<open>url \<noteq> []\<close> by simp
  qed
qed

theorem fetch_product_image_url_nonempty_witness:
  "image_url (fst (fetch_product_image (recording_fetcher no_answer head_unreachable (Returns ()))
      ''Popcorn Holder'' [])) = generate_smart_placeholder ''Popcorn Holder''
   \<and> image_url (fst (fetch_product_image
        (recording_fetcher empty_answer head_unreachable (Returns ())) ''Popcorn Holder'' []))
       = generate_smart_placeholder ''Popcorn Holder''
   \<and> generate_smart_placeholder ''Popcorn Holder''
       = ''https://via.placeholder.com/400x300/3498DB/FFFFFF?text=Popcorn%2BHolder''
   \<and> image_url (fst (fetch_product_image
        (recording_fetcher two_engines_answer two_engines_head (Returns ())) ''Popcorn Holder'' []))
       = ''https://cdn.example.com/popcorn.jpg''
   \<and> search_bing_images (recording_fetcher two_engines_answer two_engines_head (Returns ()))
        (clean_product_name ''Popcorn Holder'') []
       = (Returns (Some ''https://cdn.example.com/popcorn.jpg''),
          [Search_call ''Bing Images'' ''Popcorn''])"
proof -
  let ?none = "recording_fetcher no_answer head_unreachable (Returns ())"
  let ?empty = "recording_fetcher empty_answer head_unreachable (Returns ())"
  let ?two = "recording_fetcher two_engines_answer two_engines_head (Returns ())"
  let ?pn = "''Popcorn Holder''"
  have all_fail: "image_url (fst (fetch_product_image ?none ?pn []))
      = generate_smart_placeholder ?pn"
  proof -
    from fetch_product_image_url_nonempty [of ?none ?pn "[]"]
    have "(\<exists>method_name m w0 w1. (method_name, m) \<in> set (search_methods ?none)
             \<and> m (clean_product_name ?pn) w0
                 = (Returns (Some (image_url (fst (fetch_product_image ?none ?pn [])))), w1))
          \<or> image_url (fst (fetch_product_image ?none ?pn [])) = generate_smart_placeholder ?pn"
      by (rule conjunct2)
    then show ?thesis
    proof
      assume "\<exists>method_name m w0 w1. (method_name, m) \<in> set (search_methods ?none)
             \<and> m (clean_product_name ?pn) w0
                 = (Returns (Some (image_url (fst (fetch_product_image ?none ?pn [])))), w1)"
      then obtain method_name m w0 w1 where
        listed: "(method_name, m) \<in> set (search_methods ?none)" and
        returned: "m (clean_product_name ?pn) w0
                 = (Returns (Some (image_url (fst (fetch_product_image ?none ?pn [])))), w1)"
        by blast
      have "fst (m (clean_product_name ?pn) w0) = Returns None"
        using listed by (rule no_answer_returns_none)
      then have "Returns (Some (image_url (fst (fetch_product_image ?none ?pn []))))
                   = (Returns None :: string option outcome)"
        by (simp only: returned fst_conv)
      then have False
        by (simp only: outcome.inject option.distinct)
      then show ?thesis ..
    qed
  qed
  have all_empty: "image_url (fst (fetch_product_image ?empty ?pn []))
      = generate_smart_placeholder ?pn"
  proof -
    from fetch_product_image_url_nonempty [of ?empty ?pn "[]"]
    have filled: "image_url (fst (fetch_product_image ?empty ?pn [])) \<noteq> []"
      by (rule conjunct1)
    from fetch_product_image_url_nonempty [of ?empty ?pn "[]"]
    have either: "(\<exists>method_name m w0 w1. (method_name, m) \<in> set (search_methods ?empty)
             \<and> m (clean_product_name ?pn) w0
                 = (Returns (Some (image_url (fst (fetch_product_image ?empty ?pn [])))), w1))
          \<or> image_url (fst (fetch_product_image ?empty ?pn [])) = generate_smart_placeholder ?pn"
      by (rule conjunct2)
    from either show ?thesis
    proof
      assume "\<exists>method_name m w0 w1. (method_name, m) \<in> set (search_methods ?empty)
             \<and> m (clean_product_name ?pn) w0
                 = (Returns (Some (image_url (fst (fetch_product_image ?empty ?pn [])))), w1)"
      then obtain method_name m w0 w1 where
        listed: "(method_name, m) \<in> set (search_methods ?empty)" and
        returned: "m (clean_product_name ?pn) w0
                 = (Returns (Some (image_url (fst (fetch_product_image ?empty ?pn [])))), w1)"
        by blast
      have "fst (m (clean_product_name ?pn) w0) = Returns (Some [])"
        using listed by (rule empty_answer_returns_empty)
      then have "Returns (Some (image_url (fst (fetch_product_image ?empty ?pn []))))
                   = (Returns (Some []) :: string option outcome)"
        by (simp only: returned fst_conv)
      then have "image_url (fst (fetch_product_image ?empty ?pn [])) = []"
        by (simp only: outcome.inject option.inject)
      with filled have False
        by (rule notE)
      then show ?thesis ..
    qed
  qed
  have not_kitchen: "\<not> category_matches ''kitchen'' (lower ?pn)"
    by code_simp
  have storage: "category_matches ''storage'' (lower ?pn)"
    by code_simp
  have shown: "quote_plus (placeholder_text ?pn) = ''Popcorn%2BHolder''"
    by code_simp
  have generated: "generate_smart_placeholder ?pn
      = ''https://via.placeholder.com/400x300/3498DB/FFFFFF?text=Popcorn%2BHolder''"
    using not_kitchen storage shown
    by (simp add: generate_smart_placeholder_def Let_def themes_def placeholder_url_def)
  have discovered: "image_url (fst (fetch_product_image ?two ?pn []))
      = ''https://cdn.example.com/popcorn.jpg''"
    by code_simp
  have returned: "search_bing_images ?two (clean_product_name ?pn) []
      = (Returns (Some ''https://cdn.example.com/popcorn.jpg''),
         [Search_call ''Bing Images'' ''Popcorn''])"
    by code_simp
  show ?thesis
    using all_fail all_empty generated discovered returned by (intro conjI)
qed

text \<open>The loop over a list of methods in two parts: the second part runs from where the
  first part stopped, unless the first part left the loop.\<close>

lemma search_loop_append:
  "search_loop self (pre @ post) cn u s out w =
     (case search_loop self pre cn u s out w of
        (True, r) \<Rightarrow> (True, r)
      | (False, u', s', out', w') \<Rightarrow> search_loop self post cn u' s' out' w')"
proof (induction pre arbitrary: u s out w)
  case Nil
  show ?case by simp
next
  case (Cons a pre)
  obtain method_name m where a: "a = (method_name, m)" by (cases a)
  show ?case
    unfolding a
    by (simp add: Cons.IH split: prod.splits outcome.splits option.splits bool.splits)
qed

text \<open>\<^verbatim>\<open>source\<close> is assigned only just before \<^verbatim>\<open>break\<close>.\<close>

lemma search_loop_not_found_source:
  "search_loop self ms cn u s out w = (False, u', s', out', w') \<Longrightarrow> s' = s"
proof (induction ms arbitrary: u out w)
  case Nil
  then show ?case by simp
next
  case (Cons a ms)
  obtain method_name m where a: "a = (method_name, m)" by (cases a)
  from Cons.prems show ?case
    unfolding a
    by (auto split: prod.splits outcome.splits option.splits bool.splits if_splits
             dest: Cons.IH)
qed

text \<open>The loop does not print the line of the placeholder.\<close>

lemma search_loop_no_placeholder_line:
  "search_loop self ms cn u s out w = (b, u', s', out', w')
     \<Longrightarrow> Using_themed_placeholder \<notin> set out \<Longrightarrow> Using_themed_placeholder \<notin> set out'"
proof (induction ms arbitrary: u out w)
  case Nil
  then show ?case by simp
next
  case (Cons a ms)
  obtain method_name m where a: "a = (method_name, m)" by (cases a)
  from Cons.prems show ?case
    unfolding a
    by (auto split: prod.splits outcome.splits option.splits bool.splits if_splits
             dest!: Cons.IH)
qed

text \<open>One pass of the loop body on a method that returns a candidate.\<close>

lemma search_loop_rejected:
  "m cn w = (Returns (Some url), w1) \<Longrightarrow> url \<noteq> []
     \<Longrightarrow> validate_image_url self url w1 = (False, w2)
     \<Longrightarrow> search_loop self ((method_name, m) # rest) cn u s out w
           = search_loop self rest cn (Some url) s
               (out @ [Found_URL_but_validation_failed method_name]) w2"
  by simp

lemma search_loop_accepted:
  "m cn w = (Returns (Some url), w1) \<Longrightarrow> url \<noteq> []
     \<Longrightarrow> validate_image_url self url w1 = (True, w2)
     \<Longrightarrow> search_loop self ((method_name, m) # rest) cn u s out w
           = (True, Some url, source_of_method method_name,
              out @ [Found_image_via method_name], w2)"
  by simp

text \<open>A non-empty \<^verbatim>\<open>image_url\<close> after the loop goes into the record as it is, with the
  \<^verbatim>\<open>source\<close> the loop left.\<close>

lemma fetch_product_image_of_loop:
  "search_loop self (search_methods self) (clean_product_name product_name) None ''placeholder''
       [Searching_for product_name] w = (b, Some url, s, out, w')
     \<Longrightarrow> url \<noteq> []
     \<Longrightarrow> fetch_product_image self product_name w
           = (\<lparr>name = product_name, image_url = url, source = s,
               alt_text = ''Image of '' @ product_name\<rparr>, out, w')"
  by (simp add: fetch_product_image_def)

text \<open>
  Claim C9. When the first three search methods leave the loop running and the fourth,
  \<^verbatim>\<open>search_direct_product_search\<close>, returns a non-empty candidate that the validator
  rejects, the record of \<^verbatim>\<open>fetch_product_image\<close> carries that rejected URL with the source
  \<^verbatim>\<open>placeholder\<close>, which is none of the four method identities, \<^verbatim>\<open>smart_placeholder\<close> or
  \<^verbatim>\<open>error_placeholder\<close>. The placeholder generator is not used: the URL is the candidate,
  the line \<^verbatim>\<open>Using themed placeholder\<close> is not printed, and the world is the one the
  validator left.
\<close>

theorem rejected_last_candidate_is_emitted:
  assumes first_three:
      "search_loop self (butlast (search_methods self)) (clean_product_name product_name)
         None ''placeholder'' [Searching_for product_name] w = (False, url3, src3, out3, w3)"
    and fourth:
      "search_direct_product_search self (clean_product_name product_name) w3
         = (Returns (Some url), w4)"
    and candidate: "url \<noteq> []"
    and rejected: "validate_image_url self url w4 = (False, w5)"
  shows "fetch_product_image self product_name w
           = (\<lparr>name = product_name, image_url = url, source = ''placeholder'',
               alt_text = ''Image of '' @ product_name\<rparr>,
              out3 @ [Found_URL_but_validation_failed ''Direct Search''], w5)
         \<and> Using_themed_placeholder
             \<notin> set (out3 @ [Found_URL_but_validation_failed ''Direct Search''])
         \<and> ''placeholder'' \<notin> {''duckduckgo'', ''bing_images'', ''shopping_sites'',
                ''direct_search'', ''smart_placeholder'', ''error_placeholder''}"
proof -
  let ?cn = "clean_product_name product_name"
  have methods_split: "search_methods self
      = butlast (search_methods self) @ [(''Direct Search'', search_direct_product_search self)]"
    by (simp add: search_methods_def)
  have src3: "src3 = ''placeholder''"
    using first_three by (rule search_loop_not_found_source)
  have last_pass:
    "search_loop self [(''Direct Search'', search_direct_product_search self)] ?cn url3
        ''placeholder'' out3 w3
       = (False, Some url, ''placeholder'',
          out3 @ [Found_URL_but_validation_failed ''Direct Search''], w5)"
    using fourth candidate rejected by simp
  have "search_loop self (search_methods self) ?cn None ''placeholder''
          [Searching_for product_name] w
        = (False, Some url, ''placeholder'',
           out3 @ [Found_URL_but_validation_failed ''Direct Search''], w5)"
    using first_three last_pass unfolding src3
    by (subst methods_split, subst search_loop_append) simp
  then have emitted: "fetch_product_image self product_name w
           = (\<lparr>name = product_name, image_url = url, source = ''placeholder'',
               alt_text = ''Image of '' @ product_name\<rparr>,
              out3 @ [Found_URL_but_validation_failed ''Direct Search''], w5)"
    using candidate by (rule fetch_product_image_of_loop)
  have "Using_themed_placeholder \<notin> set out3"
    using first_three by (rule search_loop_no_placeholder_line) simp
  then show ?thesis
    using emitted by simp
qed

theorem rejected_last_candidate_is_emitted_witness:
  "search_loop (recording_fetcher wikimedia_answer head_redirect (Returns ()))
       (butlast (search_methods (recording_fetcher wikimedia_answer head_redirect (Returns ()))))
       (clean_product_name ''Popcorn Holder'') None ''placeholder''
       [Searching_for ''Popcorn Holder''] []
     = (False, None, ''placeholder'', [Searching_for ''Popcorn Holder''],
        [Search_call ''DuckDuckGo'' ''Popcorn'', Search_call ''Bing Images'' ''Popcorn'',
         Search_call ''Shopping Sites'' ''Popcorn''])
   \<and> fetch_product_image (recording_fetcher wikimedia_answer head_redirect (Returns ()))
        ''Popcorn Holder'' []
     = (\<lparr>name = ''Popcorn Holder'',
         image_url = ''https://commons.wikimedia.org/wiki/Special:FilePath/Popcorn_machine.jpg'',
         source = ''placeholder'', alt_text = ''Image of Popcorn Holder''\<rparr>,
        [Searching_for ''Popcorn Holder'', Found_URL_but_validation_failed ''Direct Search''],
        [Search_call ''DuckDuckGo'' ''Popcorn'', Search_call ''Bing Images'' ''Popcorn'',
         Search_call ''Shopping Sites'' ''Popcorn'', Search_call ''Direct Search'' ''Popcorn'',
         Head_call ''https://commons.wikimedia.org/wiki/Special:FilePath/Popcorn_machine.jpg''])"
proof -
  let ?f = "recording_fetcher wikimedia_answer head_redirect (Returns ())"
  let ?u = "''https://commons.wikimedia.org/wiki/Special:FilePath/Popcorn_machine.jpg''"
  let ?w3 = "[Search_call ''DuckDuckGo'' ''Popcorn'', Search_call ''Bing Images'' ''Popcorn'',
              Search_call ''Shopping Sites'' ''Popcorn'']"
  have first_three:
    "search_loop ?f (butlast (search_methods ?f)) (clean_product_name ''Popcorn Holder'') None
        ''placeholder'' [Searching_for ''Popcorn Holder''] []
       = (False, None, ''placeholder'', [Searching_for ''Popcorn Holder''], ?w3)"
    by code_simp
  have fourth:
    "search_direct_product_search ?f (clean_product_name ''Popcorn Holder'') ?w3
       = (Returns (Some ?u), ?w3 @ [Search_call ''Direct Search'' ''Popcorn''])"
    by code_simp
  have candidate: "?u \<noteq> []"
    by simp
  have rejected:
    "validate_image_url ?f ?u (?w3 @ [Search_call ''Direct Search'' ''Popcorn''])
       = (False, ?w3 @ [Search_call ''Direct Search'' ''Popcorn''] @ [Head_call ?u])"
    by code_simp
  from rejected_last_candidate_is_emitted [OF first_three fourth candidate rejected] first_three
  show ?thesis by simp
qed

text \<open>
  Claim C5. Let a method at an earlier place of the list return a candidate that the
  validator rejects, let the methods between it and a later one leave the loop running,
  and let the later method return a candidate that the validator accepts. Then the record
  has the later method's candidate as \<^verbatim>\<open>image_url\<close> and the later method's identity as
  \<^verbatim>\<open>source\<close>, and the world afterwards is the one the accepting validation left: no
  method, the rejected one included, is called again.
\<close>

theorem later_accepted_candidate_wins:
  assumes order: "search_methods self = pre @ (name_i, m_i) # mid @ (name_j, m_j) # post"
    and before:
      "search_loop self pre (clean_product_name product_name) None ''placeholder''
         [Searching_for product_name] w = (False, u0, s0, out0, w0)"
    and earlier: "m_i (clean_product_name product_name) w0 = (Returns (Some url_i), w1)"
    and candidate_i: "url_i \<noteq> []"
    and rejected: "validate_image_url self url_i w1 = (False, w2)"
    and between:
      "search_loop self mid (clean_product_name product_name) (Some url_i) s0
         (out0 @ [Found_URL_but_validation_failed name_i]) w2 = (False, u3, s3, out3, w3)"
    and later: "m_j (clean_product_name product_name) w3 = (Returns (Some url_j), w4)"
    and candidate_j: "url_j \<noteq> []"
    and accepted: "validate_image_url self url_j w4 = (True, w5)"
  shows "fetch_product_image self product_name w
           = (\<lparr>name = product_name, image_url = url_j, source = source_of_method name_j,
               alt_text = ''Image of '' @ product_name\<rparr>,
              out3 @ [Found_image_via name_j], w5)"
proof -
  let ?cn = "clean_product_name product_name"
  have tail_j: "search_loop self ((name_j, m_j) # post) ?cn u3 s3 out3 w3
      = (True, Some url_j, source_of_method name_j, out3 @ [Found_image_via name_j], w5)"
    using later candidate_j accepted by (rule search_loop_accepted)
  have tail_mid: "search_loop self (mid @ (name_j, m_j) # post) ?cn (Some url_i) s0
        (out0 @ [Found_URL_but_validation_failed name_i]) w2
      = (True, Some url_j, source_of_method name_j, out3 @ [Found_image_via name_j], w5)"
    by (subst search_loop_append) (simp add: between tail_j del: search_loop.simps)
  have tail_i: "search_loop self ((name_i, m_i) # mid @ (name_j, m_j) # post) ?cn u0 s0 out0 w0
      = (True, Some url_j, source_of_method name_j, out3 @ [Found_image_via name_j], w5)"
    unfolding search_loop_rejected
                [where m = m_i and cn = ?cn and w = w0, OF earlier candidate_i rejected]
    by (rule tail_mid)
  have "search_loop self (search_methods self) ?cn None ''placeholder''
          [Searching_for product_name] w
        = (True, Some url_j, source_of_method name_j, out3 @ [Found_image_via name_j], w5)"
    by (subst order, subst search_loop_append) (simp add: before tail_i del: search_loop.simps)
  then show ?thesis
    using candidate_j by (rule fetch_product_image_of_loop)
qed

theorem later_accepted_candidate_wins_witness:
  "fetch_product_image (recording_fetcher two_engines_answer two_engines_head (Returns ()))
        ''Popcorn Holder'' []
     = (\<lparr>name = ''Popcorn Holder'', image_url = ''https://cdn.example.com/popcorn.jpg'',
         source = ''bing_images'', alt_text = ''Image of Popcorn Holder''\<rparr>,
        [Searching_for ''Popcorn Holder'', Found_URL_but_validation_failed ''DuckDuckGo'',
         Found_image_via ''Bing Images''],
        [Search_call ''DuckDuckGo'' ''Popcorn'', Head_call ''https://img.example.com/popcorn'',
         Search_call ''Bing Images'' ''Popcorn'',
         Head_call ''https://cdn.example.com/popcorn.jpg''])"
proof -
  let ?f = "recording_fetcher two_engines_answer two_engines_head (Returns ())"
  let ?pn = "''Popcorn Holder''"
  let ?ui = "''https://img.example.com/popcorn''"
  let ?uj = "''https://cdn.example.com/popcorn.jpg''"
  let ?w1 = "[Search_call ''DuckDuckGo'' ''Popcorn'']"
  let ?w2 = "[Search_call ''DuckDuckGo'' ''Popcorn'', Head_call ?ui]"
  let ?w4 = "[Search_call ''DuckDuckGo'' ''Popcorn'', Head_call ?ui,
              Search_call ''Bing Images'' ''Popcorn'']"
  let ?w5 = "[Search_call ''DuckDuckGo'' ''Popcorn'', Head_call ?ui,
              Search_call ''Bing Images'' ''Popcorn'', Head_call ?uj]"
  have order: "search_methods ?f
      = [] @ (''DuckDuckGo'', search_duckduckgo_images ?f)
          # [] @ (''Bing Images'', search_bing_images ?f)
          # [(''Shopping Sites'', search_shopping_sites ?f),
             (''Direct Search'', search_direct_product_search ?f)]"
    by (simp add: search_methods_def)
  have before: "search_loop ?f [] (clean_product_name ?pn) None ''placeholder''
      [Searching_for ?pn] [] = (False, None, ''placeholder'', [Searching_for ?pn], [])"
    by simp
  have earlier: "search_duckduckgo_images ?f (clean_product_name ?pn) []
      = (Returns (Some ?ui), ?w1)"
    by code_simp
  have candidate_i: "?ui \<noteq> []"
    by simp
  have rejected: "validate_image_url ?f ?ui ?w1 = (False, ?w2)"
    by code_simp
  have between: "search_loop ?f [] (clean_product_name ?pn) (Some ?ui) ''placeholder''
      ([Searching_for ?pn] @ [Found_URL_but_validation_failed ''DuckDuckGo'']) ?w2
      = (False, Some ?ui, ''placeholder'',
         [Searching_for ?pn, Found_URL_but_validation_failed ''DuckDuckGo''], ?w2)"
    by simp
  have later: "search_bing_images ?f (clean_product_name ?pn) ?w2 = (Returns (Some ?uj), ?w4)"
    by code_simp
  have candidate_j: "?uj \<noteq> []"
    by simp
  have accepted: "validate_image_url ?f ?uj ?w4 = (True, ?w5)"
    by code_simp
  have identity: "source_of_method ''Bing Images'' = ''bing_images''"
    by code_simp
  from later_accepted_candidate_wins
         [OF order before earlier candidate_i rejected between later candidate_j accepted]
       identity
  show ?thesis by simp
qed

section \<open>The placeholder generator: which theme\<close>

text \<open>The condition of the loop for the first category, \<^verbatim>\<open>kitchen\<close>, written out.\<close>

lemma kitchen_matches_iff:
  "category_matches ''kitchen'' pl \<longleftrightarrow>
     contains pl ''kitchen'' \<or> contains pl ''mug'' \<or> contains pl ''tea''
     \<or> contains pl ''coffee'' \<or> contains pl ''sugar'' \<or> contains pl ''dispenser''
     \<or> contains pl ''jar'' \<or> contains pl ''cake'' \<or> contains pl ''tin''"
  by (simp add: category_matches_def keywords_get_def theme_keywords_def)

lemma storage_matches: "contains pl ''storage'' \<Longrightarrow> category_matches ''storage'' pl"
  by (simp add: category_matches_def)

text \<open>The loop leaves at the first category that matches, and \<^verbatim>\<open>kitchen\<close> comes before
  \<^verbatim>\<open>storage\<close> in the dictionary.\<close>

lemma choose_theme_kitchen:
  "category_matches ''kitchen'' pl
     \<Longrightarrow> choose_theme themes pl theme = \<lparr>bg = ''2C3E50'', fg = ''ECF0F1'', icon = 0x1F373\<rparr>"
  by (simp add: themes_def)

lemma choose_theme_storage:
  "\<not> category_matches ''kitchen'' pl \<Longrightarrow> category_matches ''storage'' pl
     \<Longrightarrow> choose_theme themes pl theme = \<lparr>bg = ''3498DB'', fg = ''FFFFFF'', icon = 0x1F4E6\<rparr>"
  by (simp add: themes_def)

text \<open>
  Claim C3, as the code has it. For a product name that contains \<^verbatim>\<open>storage\<close> ignoring
  case, the placeholder has the colours of the storage theme, \<^verbatim>\<open>3498DB/FFFFFF\<close>, unless
  the lower-cased name also contains \<^verbatim>\<open>kitchen\<close> or one of the kitchen keywords
  \<^verbatim>\<open>mug\<close>, \<^verbatim>\<open>tea\<close>, \<^verbatim>\<open>coffee\<close>, \<^verbatim>\<open>sugar\<close>, \<^verbatim>\<open>dispenser\<close>, \<^verbatim>\<open>jar\<close>, \<^verbatim>\<open>cake\<close>, \<^verbatim>\<open>tin\<close>;
  then it has the colours of the kitchen theme, \<^verbatim>\<open>2C3E50/ECF0F1\<close>. It never has the colours
  of the default theme or of a later one.
\<close>

theorem storage_theme_unless_kitchen:
  assumes "contains (lower product_name) ''storage''"
  shows "generate_smart_placeholder product_name =
     (if contains (lower product_name) ''kitchen'' \<or> contains (lower product_name) ''mug''
         \<or> contains (lower product_name) ''tea'' \<or> contains (lower product_name) ''coffee''
         \<or> contains (lower product_name) ''sugar'' \<or> contains (lower product_name) ''dispenser''
         \<or> contains (lower product_name) ''jar'' \<or> contains (lower product_name) ''cake''
         \<or> contains (lower product_name) ''tin''
      then ''https://via.placeholder.com/400x300/2C3E50/ECF0F1?text=''
             @ quote_plus (placeholder_text product_name)
      else ''https://via.placeholder.com/400x300/3498DB/FFFFFF?text=''
             @ quote_plus (placeholder_text product_name))"
proof (cases "category_matches ''kitchen'' (lower product_name)")
  case True
  have "generate_smart_placeholder product_name
      = ''https://via.placeholder.com/400x300/2C3E50/ECF0F1?text=''
          @ quote_plus (placeholder_text product_name)"
    by (simp add: generate_smart_placeholder_def placeholder_url_def Let_def
                  choose_theme_kitchen [OF True])
  then show ?thesis
    using True unfolding kitchen_matches_iff by (simp only: if_True)
next
  case False
  have "category_matches ''storage'' (lower product_name)"
    using assms by (rule storage_matches)
  with False have "generate_smart_placeholder product_name
      = ''https://via.placeholder.com/400x300/3498DB/FFFFFF?text=''
          @ quote_plus (placeholder_text product_name)"
    by (simp add: generate_smart_placeholder_def placeholder_url_def Let_def
                  choose_theme_storage)
  then show ?thesis
    using False unfolding kitchen_matches_iff by (simp only: if_False)
qed

theorem storage_theme_unless_kitchen_witness:
  "contains (lower ''Storage Box Large'') ''storage''
   \<and> generate_smart_placeholder ''Storage Box Large''
       = ''https://via.placeholder.com/400x300/3498DB/FFFFFF?text=Storage%2BBox%2BLarge''"
proof -
  have named: "contains (lower ''Storage Box Large'') ''storage''"
    by code_simp
  have not_kitchen:
    "(contains (lower ''Storage Box Large'') ''kitchen''
        \<or> contains (lower ''Storage Box Large'') ''mug''
        \<or> contains (lower ''Storage Box Large'') ''tea''
        \<or> contains (lower ''Storage Box Large'') ''coffee''
        \<or> contains (lower ''Storage Box Large'') ''sugar''
        \<or> contains (lower ''Storage Box Large'') ''dispenser''
        \<or> contains (lower ''Storage Box Large'') ''jar''
        \<or> contains (lower ''Storage Box Large'') ''cake''
        \<or> contains (lower ''Storage Box Large'') ''tin'') = False"
    by code_simp
  have shown: "quote_plus (placeholder_text ''Storage Box Large'') = ''Storage%2BBox%2BLarge''"
    by code_simp
  have "generate_smart_placeholder ''Storage Box Large''
       = ''https://via.placeholder.com/400x300/3498DB/FFFFFF?text='' @ ''Storage%2BBox%2BLarge''"
    using storage_theme_unless_kitchen [OF named]
    by (simp only: not_kitchen if_False shown)
  then show ?thesis
    using named by simp
qed

text \<open>
  Claim C3 as stated fails on its own example: \<^verbatim>\<open>Storage Tin Vintage Leaf\<close> contains
  \<^verbatim>\<open>storage\<close>, and also the kitchen keyword \<^verbatim>\<open>tin\<close>, and gets the kitchen colours.
\<close>

theorem storage_tin_gets_kitchen_theme:
  "contains (lower ''Storage Tin Vintage Leaf'') ''storage''
   \<and> generate_smart_placeholder ''Storage Tin Vintage Leaf''
       = ''https://via.placeholder.com/400x300/2C3E50/ECF0F1?text=Storage%2BTin%2BVintage%2BLeaf''
   \<and> generate_smart_placeholder ''Storage Tin Vintage Leaf''
       \<noteq> ''https://via.placeholder.com/400x300/3498DB/FFFFFF?text=Storage%2BTin%2BVintage%2BLeaf''"
proof -
  have named: "contains (lower ''Storage Tin Vintage Leaf'') ''storage''"
    by code_simp
  have tin: "contains (lower ''Storage Tin Vintage Leaf'') ''tin''"
    by code_simp
  have kitchen: "category_matches ''kitchen'' (lower ''Storage Tin Vintage Leaf'')"
    using tin by (simp only: kitchen_matches_iff simp_thms)
  have shown: "quote_plus (placeholder_text ''Storage Tin Vintage Leaf'')
      = ''Storage%2BTin%2BVintage%2BLeaf''"
    by code_simp
  have "generate_smart_placeholder ''Storage Tin Vintage Leaf''
       = ''https://via.placeholder.com/400x300/2C3E50/ECF0F1?text=Storage%2BTin%2BVintage%2BLeaf''"
    by (simp add: generate_smart_placeholder_def placeholder_url_def Let_def
                  choose_theme_kitchen [OF kitchen] shown)
  then show ?thesis
    using named by simp
qed

section \<open>The name normalizer: names without a match\<close>

text \<open>\<^verbatim>\<open>strip()\<close> changes nothing in a string that neither starts nor ends with
  whitespace.\<close>

lemma lstrip_id: "s \<noteq> [] \<Longrightarrow> \<not> is_space (hd s) \<Longrightarrow> lstrip s = s"
  by (cases s) (simp_all add: lstrip_def)

lemma rstrip_id: "s \<noteq> [] \<Longrightarrow> \<not> is_space (last s) \<Longrightarrow> rstrip s = s"
proof -
  assume "s \<noteq> []" and "\<not> is_space (last s)"
  then have "rev s \<noteq> []" and "\<not> is_space (hd (rev s))"
    by (simp_all add: hd_rev)
  then have "dropWhile is_space (rev s) = rev s"
    by (cases "rev s") simp_all
  then show ?thesis
    by (simp add: rstrip_def)
qed

lemma strip_id: "s \<noteq> [] \<Longrightarrow> \<not> is_space (hd s) \<Longrightarrow> \<not> is_space (last s) \<Longrightarrow> strip s = s"
  by (simp add: strip_def lstrip_id rstrip_id)

text \<open>
  Claim C8, as the code has it. \<^verbatim>\<open>clean_product_name\<close> is a total function. When neither
  the leading quantity or size pattern nor the trailing descriptor pattern matches, it
  returns its input with the surrounding whitespace removed, so it returns the input
  itself when the input is not empty and neither starts nor ends with whitespace.
  \<^verbatim>\<open>Popcorn Holder\<close> becomes \<^verbatim>\<open>Popcorn\<close>, and normalizing that once more changes
  nothing.
\<close>

theorem clean_product_name_without_match:
  "(match_prefix_pattern raw = None \<and> match_suffix_pattern raw = None
      \<longrightarrow> clean_product_name raw = strip raw)
   \<and> (match_prefix_pattern raw = None \<and> match_suffix_pattern raw = None
        \<and> raw \<noteq> [] \<and> \<not> is_space (hd raw) \<and> \<not> is_space (last raw)
      \<longrightarrow> clean_product_name raw = raw)
   \<and> clean_product_name ''Popcorn Holder'' = ''Popcorn''
   \<and> clean_product_name (clean_product_name ''Popcorn Holder'')
       = clean_product_name ''Popcorn Holder''"
proof -
  have unmatched: "clean_product_name raw = strip raw"
    if "match_prefix_pattern raw = None" and "match_suffix_pattern raw = None"
    using that by (simp add: clean_product_name_def sub_prefix_pattern_def sub_suffix_pattern_def)
  have trimmed: "clean_product_name raw = raw"
    if "match_prefix_pattern raw = None" and "match_suffix_pattern raw = None"
      and "raw \<noteq> []" and "\<not> is_space (hd raw)" and "\<not> is_space (last raw)"
    using that by (simp add: unmatched strip_id)
  have popcorn: "clean_product_name ''Popcorn Holder'' = ''Popcorn''"
    by code_simp
  have again: "clean_product_name ''Popcorn'' = ''Popcorn''"
    by code_simp
  have twice: "clean_product_name (clean_product_name ''Popcorn Holder'')
       = clean_product_name ''Popcorn Holder''"
    unfolding popcorn by (rule again)
  show ?thesis
  proof (intro conjI impI)
    assume "match_prefix_pattern raw = None \<and> match_suffix_pattern raw = None"
    then show "clean_product_name raw = strip raw"
      by (simp add: unmatched)
  next
    assume "match_prefix_pattern raw = None \<and> match_suffix_pattern raw = None
        \<and> raw \<noteq> [] \<and> \<not> is_space (hd raw) \<and> \<not> is_space (last raw)"
    then show "clean_product_name raw = raw"
      by (simp add: trimmed)
  next
    show "clean_product_name ''Popcorn Holder'' = ''Popcorn''"
      by (rule popcorn)
  next
    show "clean_product_name (clean_product_name ''Popcorn Holder'')
       = clean_product_name ''Popcorn Holder''"
      by (rule twice)
  qed
qed

theorem clean_product_name_without_match_witness:
  "match_prefix_pattern ''Gumball Coat Rack'' = None
   \<and> match_suffix_pattern ''Gumball Coat Rack'' = None
   \<and> ''Gumball Coat Rack'' \<noteq> []
   \<and> \<not> is_space (hd ''Gumball Coat Rack'') \<and> \<not> is_space (last ''Gumball Coat Rack'')
   \<and> clean_product_name ''Gumball Coat Rack'' = ''Gumball Coat Rack''"
proof -
  have hyps: "match_prefix_pattern ''Gumball Coat Rack'' = None
   \<and> match_suffix_pattern ''Gumball Coat Rack'' = None
   \<and> ''Gumball Coat Rack'' \<noteq> []
   \<and> \<not> is_space (hd ''Gumball Coat Rack'') \<and> \<not> is_space (last ''Gumball Coat Rack'')"
    by code_simp
  from clean_product_name_without_match [of "''Gumball Coat Rack''"]
  have "match_prefix_pattern ''Gumball Coat Rack'' = None
        \<and> match_suffix_pattern ''Gumball Coat Rack'' = None
        \<and> ''Gumball Coat Rack'' \<noteq> []
        \<and> \<not> is_space (hd ''Gumball Coat Rack'') \<and> \<not> is_space (last ''Gumball Coat Rack'')
      \<longrightarrow> clean_product_name ''Gumball Coat Rack'' = ''Gumball Coat Rack''"
    by (rule conjunct1 [OF conjunct2])
  then have "clean_product_name ''Gumball Coat Rack'' = ''Gumball Coat Rack''"
    using hyps by (rule mp)
  with hyps show ?thesis
    by (simp only: simp_thms)
qed

text \<open>
  Claim C8 as stated fails on a name that no pattern matches and that starts with a
  space: the result is not the input.
\<close>

theorem clean_product_name_trims_unmatched_input:
  "match_prefix_pattern '' Popcorn'' = None \<and> match_suffix_pattern '' Popcorn'' = None
   \<and> clean_product_name '' Popcorn'' = ''Popcorn''
   \<and> clean_product_name '' Popcorn'' \<noteq> '' Popcorn''"
  by code_simp

section \<open>The pipeline: when every candidate is rejected\<close>

text \<open>The world in which only the media repository has a hit, and the hit is answered
  with a redirect, run on any product name.\<close>

lemma fetch_product_image_wikimedia:
  "fetch_product_image (recording_fetcher wikimedia_answer head_redirect sleep) product_name w
     = (\<lparr>name = product_name,
         image_url = ''https://commons.wikimedia.org/wiki/Special:FilePath/Popcorn_machine.jpg'',
         source = ''placeholder'', alt_text = ''Image of '' @ product_name\<rparr>,
        [Searching_for product_name, Found_URL_but_validation_failed ''Direct Search''],
        w @ [Search_call ''DuckDuckGo'' (clean_product_name product_name),
             Search_call ''Bing Images'' (clean_product_name product_name),
             Search_call ''Shopping Sites'' (clean_product_name product_name),
             Search_call ''Direct Search'' (clean_product_name product_name),
             Head_call ''https://commons.wikimedia.org/wiki/Special:FilePath/Popcorn_machine.jpg''])"
  by (simp add: fetch_product_image_def search_methods_def recording_fetcher_def
                wikimedia_answer_def head_redirect_def validate_image_url_def
                response_is_image_def Let_def)

text \<open>Every generated placeholder is at \<^verbatim>\<open>via.placeholder.com\<close>.\<close>

lemma generate_smart_placeholder_is_elsewhere:
  "generate_smart_placeholder product_name
     \<noteq> ''https://commons.wikimedia.org/wiki/Special:FilePath/Popcorn_machine.jpg''"
  by (simp add: generate_smart_placeholder_def placeholder_url_def Let_def)

text \<open>
  Claim C2. The claim is that \<^verbatim>\<open>fetch_product_image\<close> emits the source
  \<^verbatim>\<open>smart_placeholder\<close> and the generated placeholder whenever every search method
  returns nothing or a candidate that the validator rejects. The code does not: for
  \<^verbatim>\<open>Popcorn Holder\<close>, with the first three methods returning \<^verbatim>\<open>None\<close> and the fourth a
  candidate that is answered with the status 302, the validator rejects the candidate
  and the record still has it as \<^verbatim>\<open>image_url\<close>, with the source \<^verbatim>\<open>placeholder\<close>. The
  comment before the last \<^verbatim>\<open>if\<close> reads \<^verbatim>\<open>If no real image found, use smart placeholder\<close>,
  but the condition tests \<^verbatim>\<open>image_url\<close>, which the loop has set to the rejected candidate.
\<close>

theorem all_rejected_keeps_the_rejected_url:
  "wikimedia_answer ''DuckDuckGo'' (clean_product_name ''Popcorn Holder'') = Returns None
   \<and> wikimedia_answer ''Bing Images'' (clean_product_name ''Popcorn Holder'') = Returns None
   \<and> wikimedia_answer ''Shopping Sites'' (clean_product_name ''Popcorn Holder'') = Returns None
   \<and> wikimedia_answer ''Direct Search'' (clean_product_name ''Popcorn Holder'')
       = Returns (Some ''https://commons.wikimedia.org/wiki/Special:FilePath/Popcorn_machine.jpg'')
   \<and> fst (validate_image_url (recording_fetcher wikimedia_answer head_redirect (Returns ()))
         ''https://commons.wikimedia.org/wiki/Special:FilePath/Popcorn_machine.jpg'' []) = False
   \<and> source (fst (fetch_product_image (recording_fetcher wikimedia_answer head_redirect (Returns ()))
         ''Popcorn Holder'' [])) = ''placeholder''
   \<and> source (fst (fetch_product_image (recording_fetcher wikimedia_answer head_redirect (Returns ()))
         ''Popcorn Holder'' [])) \<noteq> ''smart_placeholder''
   \<and> image_url (fst (fetch_product_image
         (recording_fetcher wikimedia_answer head_redirect (Returns ())) ''Popcorn Holder'' []))
       = ''https://commons.wikimedia.org/wiki/Special:FilePath/Popcorn_machine.jpg''
   \<and> image_url (fst (fetch_product_image
         (recording_fetcher wikimedia_answer head_redirect (Returns ())) ''Popcorn Holder'' []))
       \<noteq> generate_smart_placeholder ''Popcorn Holder''"
proof -
  have other: "''https://commons.wikimedia.org/wiki/Special:FilePath/Popcorn_machine.jpg''
      \<noteq> generate_smart_placeholder ''Popcorn Holder''"
    using generate_smart_placeholder_is_elsewhere [of "''Popcorn Holder''"] by (rule not_sym)
  have rejected:
    "fst (validate_image_url (recording_fetcher wikimedia_answer head_redirect (Returns ()))
         ''https://commons.wikimedia.org/wiki/Special:FilePath/Popcorn_machine.jpg'' []) = False"
    by (simp add: validate_image_url_def recording_fetcher_def head_redirect_def
                  response_is_image_def)
  show ?thesis
    using other rejected by (simp add: fetch_product_image_wikimedia wikimedia_answer_def)
qed

section \<open>The batch: one record for each name\<close>

text \<open>The world in which no search method finds anything, run on any product name.\<close>

lemma fetch_product_image_no_answer:
  "fetch_product_image (recording_fetcher no_answer head sleep) product_name w
     = (\<lparr>name = product_name, image_url = generate_smart_placeholder product_name,
         source = ''smart_placeholder'', alt_text = ''Image of '' @ product_name\<rparr>,
        [Searching_for product_name, Using_themed_placeholder],
        w @ [Search_call ''DuckDuckGo'' (clean_product_name product_name),
             Search_call ''Bing Images'' (clean_product_name product_name),
             Search_call ''Shopping Sites'' (clean_product_name product_name),
             Search_call ''Direct Search'' (clean_product_name product_name)])"
  by (simp add: fetch_product_image_def search_methods_def recording_fetcher_def no_answer_def
                Let_def)

text \<open>\<^verbatim>\<open>time.sleep\<close> raises on the negative delay after \<^verbatim>\<open>Waiting\<close> has been printed.\<close>

lemma rate_limit_sleep_negative:
  "rate_limit (recording_fetcher answer head sleep_negative) w
     = (Some ''sleep length must be non-negative'', [Waiting], w @ [Uniform_call, Sleep_call])"
  by (simp add: rate_limit_def recording_fetcher_def sleep_negative_def)

text \<open>The two fields that \<^verbatim>\<open>fetch_product_image\<close> copies from its argument.\<close>

lemma fetch_product_image_name:
  "name (fst (fetch_product_image self product_name w)) = product_name"
  "alt_text (fst (fetch_product_image self product_name w)) = ''Image of '' @ product_name"
  by (simp_all add: fetch_product_image_def Let_def split: prod.splits option.splits)

text \<open>When the rate limiting never raises, the batch has one record for each name, in the
  order of the names, each named by the name with its surrounding whitespace removed.\<close>

lemma batch_loop_without_fault:
  assumes "\<And>w. fst (rate_limit self w) = None"
  shows "map name (fst (batch_loop self total_n i names results out w))
           = map name results @ map strip names"
proof (induction names arbitrary: i results out w)
  case Nil
  show ?case by simp
next
  case (Cons p rest)
  obtain product_image out1 w1 where
    fetched: "fetch_product_image self (strip p) w = (product_image, out1, w1)"
    by (cases "fetch_product_image self (strip p) w")
  obtain e out2 w2 where limited: "rate_limit self w1 = (e, out2, w2)"
    by (cases "rate_limit self w1")
  have no_fault: "e = None"
    using assms [of w1] limited by simp
  have named: "name product_image = strip p"
    using fetch_product_image_name(1) [of self "strip p" w] fetched by simp
  show ?case
  proof (cases "i < total_n")
    case True
    then have "batch_loop self total_n i (p # rest) results out w
        = batch_loop self total_n (i + 1) rest (results @ [product_image])
            (out @ [Progress i total_n] @ out1 @ out2) w2"
      using fetched limited no_fault by simp
    then show ?thesis
      by (simp add: Cons.IH named)
  next
    case False
    then have "batch_loop self total_n i (p # rest) results out w
        = batch_loop self total_n (i + 1) rest (results @ [product_image])
            (out @ [Progress i total_n] @ out1) w1"
      using fetched by simp
    then show ?thesis
      by (simp add: Cons.IH named)
  qed
qed

lemma fetch_all_images_without_fault:
  assumes "\<And>w. fst (rate_limit self w) = None"
  shows "map name (fst (fetch_all_images self product_names w)) = map strip product_names"
    and "length (fst (fetch_all_images self product_names w)) = length product_names"
proof -
  show names: "map name (fst (fetch_all_images self product_names w)) = map strip product_names"
    using batch_loop_without_fault [OF assms, of "length product_names" 1 product_names "[]"]
    by (simp add: fetch_all_images_def Let_def)
  from arg_cong [OF names, of length]
  show "length (fst (fetch_all_images self product_names w)) = length product_names"
    by simp
qed

text \<open>
  Claim C1. The claim is that \<^verbatim>\<open>fetch_all_images\<close> returns exactly one record for each
  name of the list. The code does not when the rate limiting raises: with
  \<^verbatim>\<open>delay_range=(-2.0, -1.0)\<close>, \<^verbatim>\<open>time.sleep\<close> raises \<^verbatim>\<open>ValueError\<close> inside the \<^verbatim>\<open>try\<close>,
  after \<^verbatim>\<open>results.append\<close>, and the \<^verbatim>\<open>except\<close> branch appends a second record, with the
  source \<^verbatim>\<open>error_placeholder\<close>, for the product that already has one. The two names
  \<^verbatim>\<open>Popcorn Holder\<close> and \<^verbatim>\<open>Gumball Coat Rack\<close> give three records.
\<close>

theorem rate_limit_fault_adds_a_record:
  "map (\<lambda>r. (name r, source r, alt_text r))
     (fst (fetch_all_images (recording_fetcher no_answer head_unreachable sleep_negative)
        [''Popcorn Holder'', ''Gumball Coat Rack''] []))
   = [(''Popcorn Holder'', ''smart_placeholder'', ''Image of Popcorn Holder''),
      (''Popcorn Holder'', ''error_placeholder'', ''Placeholder for Popcorn Holder''),
      (''Gumball Coat Rack'', ''smart_placeholder'', ''Image of Gumball Coat Rack'')]
   \<and> length (fst (fetch_all_images (recording_fetcher no_answer head_unreachable sleep_negative)
        [''Popcorn Holder'', ''Gumball Coat Rack''] [])) = 3
   \<and> length [''Popcorn Holder'', ''Gumball Coat Rack''] = 2"
proof -
  have first_name: "strip ''Popcorn Holder'' = ''Popcorn Holder''"
    by code_simp
  have second_name: "strip ''Gumball Coat Rack'' = ''Gumball Coat Rack''"
    by code_simp
  show ?thesis
    by (simp add: fetch_all_images_def fetch_product_image_no_answer rate_limit_sleep_negative
                  first_name second_name error_placeholder_def)
qed

section \<open>The batch: names and alternative texts\<close>

text \<open>\<^verbatim>\<open>source\<close> after the loop is what it was before, or the identity of one of the
  methods.\<close>

lemma search_loop_source:
  "search_loop self ms cn u s out w = (b, u', s', out', w')
     \<Longrightarrow> s' = s \<or> s' \<in> source_of_method ` fst ` set ms"
proof (induction ms arbitrary: u out w)
  case Nil
  then show ?case by simp
next
  case (Cons a ms)
  obtain method_name m where a: "a = (method_name, m)" by (cases a)
  from Cons.prems show ?case
    unfolding a
    by (auto split: prod.splits outcome.splits option.splits bool.splits if_splits
             dest!: Cons.IH)
qed

lemma source_of_method_names:
  "source_of_method ''DuckDuckGo'' = ''duckduckgo''"
  "source_of_method ''Bing Images'' = ''bing_images''"
  "source_of_method ''Shopping Sites'' = ''shopping_sites''"
  "source_of_method ''Direct Search'' = ''direct_search''"
  by code_simp+

text \<open>\<^verbatim>\<open>fetch_product_image\<close> never gives the source \<^verbatim>\<open>error_placeholder\<close>.\<close>

lemma fetch_product_image_source:
  "source (fst (fetch_product_image self product_name w))
     \<in> {''placeholder'', ''smart_placeholder'', ''duckduckgo'', ''bing_images'',
         ''shopping_sites'', ''direct_search''}"
proof -
  obtain b u s out w' where
    loop: "search_loop self (search_methods self) (clean_product_name product_name) None
             ''placeholder'' [Searching_for product_name] w = (b, u, s, out, w')"
    by (cases "search_loop self (search_methods self) (clean_product_name product_name) None
                 ''placeholder'' [Searching_for product_name] w")
  from search_loop_source [OF loop]
  have "s \<in> {''placeholder'', ''duckduckgo'', ''bing_images'', ''shopping_sites'',
              ''direct_search''}"
    by (auto simp: search_methods_def source_of_method_names)
  moreover have "source (fst (fetch_product_image self product_name w)) = s
      \<or> source (fst (fetch_product_image self product_name w)) = ''smart_placeholder''"
    using loop by (simp add: fetch_product_image_def split: option.splits)
  ultimately show ?thesis
    by auto
qed

text \<open>What holds of the records before the loop, of every record of
  \<^verbatim>\<open>fetch_product_image\<close> on a trimmed name of the list and of every record of the
  \<^verbatim>\<open>except\<close> branch holds of all records of the batch.\<close>

lemma batch_loop_invariant:
  assumes "\<forall>r \<in> set results. P r"
    and "\<And>p w. p \<in> set names \<Longrightarrow> P (fst (fetch_product_image self (strip p) w))"
    and "\<And>p. p \<in> set names \<Longrightarrow> P (error_placeholder p)"
  shows "\<forall>r \<in> set (fst (batch_loop self total_n i names results out w)). P r"
  using assms
proof (induction names arbitrary: i results out w)
  case Nil
  then show ?case by simp
next
  case (Cons p rest)
  obtain product_image out1 w1 where
    fetched: "fetch_product_image self (strip p) w = (product_image, out1, w1)"
    by (cases "fetch_product_image self (strip p) w")
  obtain e out2 w2 where limited: "rate_limit self w1 = (e, out2, w2)"
    by (cases "rate_limit self w1")
  have image: "P product_image"
    using Cons.prems(2) [of p w] fetched by simp
  have error: "P (error_placeholder p)"
    using Cons.prems(3) [of p] by simp
  have rest: "\<forall>r \<in> set (fst (batch_loop self total_n i' rest results' out' w')). P r"
    if "\<forall>r \<in> set results'. P r" for i' results' out' w'
    using that Cons.prems(2,3) by (intro Cons.IH) auto
  show ?case
  proof (cases "i < total_n")
    case False
    then have "batch_loop self total_n i (p # rest) results out w
        = batch_loop self total_n (i + 1) rest (results @ [product_image])
            (out @ [Progress i total_n] @ out1) w1"
      using fetched by simp
    then show ?thesis
      using rest [of "results @ [product_image]"] Cons.prems(1) image by simp
  next
    case True
    show ?thesis
    proof (cases e)
      case None
      then have "batch_loop self total_n i (p # rest) results out w
          = batch_loop self total_n (i + 1) rest (results @ [product_image])
              (out @ [Progress i total_n] @ out1 @ out2) w2"
        using fetched limited True by simp
      then show ?thesis
        using rest [of "results @ [product_image]"] Cons.prems(1) image by simp
    next
      case (Some msg)
      then have "batch_loop self total_n i (p # rest) results out w
          = batch_loop self total_n (i + 1) rest
              (results @ [product_image] @ [error_placeholder p])
              (out @ [Progress i total_n] @ out1 @ out2 @ [Error_processing p msg]) w2"
        using fetched limited True by simp
      then show ?thesis
        using rest [of "results @ [product_image] @ [error_placeholder p]"]
              Cons.prems(1) image error by simp
    qed
  qed
qed

text \<open>
  Claim C7, as the code has it. The record of \<^verbatim>\<open>fetch_product_image\<close> has the function's
  argument as \<^verbatim>\<open>name\<close> and \<^verbatim>\<open>Image of\<close> followed by the argument as \<^verbatim>\<open>alt_text\<close>, on the
  resolved path and on the placeholder path. \<^verbatim>\<open>fetch_all_images\<close> passes each name of the
  list with its surrounding whitespace removed, so every record of the batch whose source
  is not \<^verbatim>\<open>error_placeholder\<close> has a trimmed name of the list as \<^verbatim>\<open>name\<close> and \<^verbatim>\<open>Image of\<close>
  followed by the trimmed name as \<^verbatim>\<open>alt_text\<close>; a record whose source is
  \<^verbatim>\<open>error_placeholder\<close> has a name of the list as it is as \<^verbatim>\<open>name\<close>, and \<^verbatim>\<open>Placeholder for\<close>
  followed by that name as \<^verbatim>\<open>alt_text\<close>.
\<close>

theorem record_names_and_alt_texts:
  "name (fst (fetch_product_image self product_name w)) = product_name
   \<and> alt_text (fst (fetch_product_image self product_name w)) = ''Image of '' @ product_name
   \<and> (\<forall>r \<in> set (fst (fetch_all_images self product_names w)).
         \<exists>p \<in> set product_names.
           (source r \<noteq> ''error_placeholder'' \<and> name r = strip p
              \<and> alt_text r = ''Image of '' @ strip p)
           \<or> (source r = ''error_placeholder'' \<and> name r = p
                \<and> alt_text r = ''Placeholder for '' @ p))"
proof -
  let ?P = "\<lambda>r. \<exists>p \<in> set product_names.
           (source r \<noteq> ''error_placeholder'' \<and> name r = strip p
              \<and> alt_text r = ''Image of '' @ strip p)
           \<or> (source r = ''error_placeholder'' \<and> name r = p
                \<and> alt_text r = ''Placeholder for '' @ p)"
  have resolved: "?P (fst (fetch_product_image self (strip p) w'))"
    if "p \<in> set product_names" for p w'
  proof -
    have "source (fst (fetch_product_image self (strip p) w')) \<noteq> ''error_placeholder''"
      using fetch_product_image_source [of self "strip p" w'] by auto
    then show ?thesis
      using that by (auto simp: fetch_product_image_name)
  qed
  have failed: "?P (error_placeholder p)" if "p \<in> set product_names" for p
    using that by (auto simp: error_placeholder_def)
  have "\<forall>r \<in> set (fst (batch_loop self (length product_names) 1 product_names []
                          [Starting_to_fetch (length product_names)] w)). ?P r"
  proof (rule batch_loop_invariant [where P = ?P])
    show "\<forall>r \<in> set []. ?P r"
      by simp
  next
    fix p w'
    assume "p \<in> set product_names"
    then show "?P (fst (fetch_product_image self (strip p) w'))"
      by (rule resolved)
  next
    fix p
    assume "p \<in> set product_names"
    then show "?P (error_placeholder p)"
      by (rule failed)
  qed
  then show ?thesis
    by (simp add: fetch_all_images_def fetch_product_image_name Let_def)
qed

theorem record_names_and_alt_texts_witness:
  "map (\<lambda>r. (source r, name r, alt_text r))
     (fst (fetch_all_images (recording_fetcher no_answer head_unreachable sleep_negative)
        ['' Popcorn Holder'', ''Gumball Coat Rack''] []))
   = [(''smart_placeholder'', ''Popcorn Holder'', ''Image of Popcorn Holder''),
      (''error_placeholder'', '' Popcorn Holder'', ''Placeholder for  Popcorn Holder''),
      (''smart_placeholder'', ''Gumball Coat Rack'', ''Image of Gumball Coat Rack'')]
   \<and> strip '' Popcorn Holder'' = ''Popcorn Holder''
   \<and> strip ''Gumball Coat Rack'' = ''Gumball Coat Rack''
   \<and> list_all
        (\<lambda>r. \<exists>p \<in> set ['' Popcorn Holder'', ''Gumball Coat Rack''].
           (source r \<noteq> ''error_placeholder'' \<and> name r = strip p
              \<and> alt_text r = ''Image of '' @ strip p)
           \<or> (source r = ''error_placeholder'' \<and> name r = p
                \<and> alt_text r = ''Placeholder for '' @ p))
        (fst (fetch_all_images (recording_fetcher no_answer head_unreachable sleep_negative)
           ['' Popcorn Holder'', ''Gumball Coat Rack''] []))"
proof -
  let ?f = "recording_fetcher no_answer head_unreachable sleep_negative"
  have first_name: "strip '' Popcorn Holder'' = ''Popcorn Holder''"
    by code_simp
  have second_name: "strip ''Gumball Coat Rack'' = ''Gumball Coat Rack''"
    by code_simp
  have records: "map (\<lambda>r. (source r, name r, alt_text r))
     (fst (fetch_all_images ?f ['' Popcorn Holder'', ''Gumball Coat Rack''] []))
   = [(''smart_placeholder'', ''Popcorn Holder'', ''Image of Popcorn Holder''),
      (''error_placeholder'', '' Popcorn Holder'', ''Placeholder for  Popcorn Holder''),
      (''smart_placeholder'', ''Gumball Coat Rack'', ''Image of Gumball Coat Rack'')]"
    by (simp add: fetch_all_images_def fetch_product_image_no_answer rate_limit_sleep_negative
                  first_name second_name error_placeholder_def)
  from record_names_and_alt_texts
         [of ?f "''Popcorn Holder''" "[]" "['' Popcorn Holder'', ''Gumball Coat Rack'']"]
  have "\<forall>r \<in> set (fst (fetch_all_images ?f ['' Popcorn Holder'', ''Gumball Coat Rack''] [])).
         \<exists>p \<in> set ['' Popcorn Holder'', ''Gumball Coat Rack''].
           (source r \<noteq> ''error_placeholder'' \<and> name r = strip p
              \<and> alt_text r = ''Image of '' @ strip p)
           \<or> (source r = ''error_placeholder'' \<and> name r = p
                \<and> alt_text r = ''Placeholder for '' @ p)"
    by (rule conjunct2 [OF conjunct2])
  then have "list_all
        (\<lambda>r. \<exists>p \<in> set ['' Popcorn Holder'', ''Gumball Coat Rack''].
           (source r \<noteq> ''error_placeholder'' \<and> name r = strip p
              \<and> alt_text r = ''Image of '' @ strip p)
           \<or> (source r = ''error_placeholder'' \<and> name r = p
                \<and> alt_text r = ''Placeholder for '' @ p))
        (fst (fetch_all_images ?f ['' Popcorn Holder'', ''Gumball Coat Rack''] []))"
    by (simp only: list_all_iff)
  with records first_name second_name show ?thesis
    by (intro conjI)
qed

text \<open>
  Claim C7 as stated fails in the batch. For the name \<^verbatim>\<open> Popcorn Holder\<close>, which starts
  with a space, the first record has the trimmed name, and the record of the \<^verbatim>\<open>except\<close>
  branch has an \<^verbatim>\<open>alt_text\<close> that starts with \<^verbatim>\<open>Placeholder for\<close>.
\<close>

theorem batch_record_differs_from_raw_input:
  "map (\<lambda>r. (source r, name r, alt_text r))
     (fst (fetch_all_images (recording_fetcher no_answer head_unreachable sleep_negative)
        ['' Popcorn Holder'', ''Gumball Coat Rack''] []))
   = [(''smart_placeholder'', ''Popcorn Holder'', ''Image of Popcorn Holder''),
      (''error_placeholder'', '' Popcorn Holder'', ''Placeholder for  Popcorn Holder''),
      (''smart_placeholder'', ''Gumball Coat Rack'', ''Image of Gumball Coat Rack'')]
   \<and> ''Popcorn Holder'' \<noteq> '' Popcorn Holder''
   \<and> ''Image of Popcorn Holder'' \<noteq> ''Image of '' @ '' Popcorn Holder''
   \<and> ''Placeholder for  Popcorn Holder'' \<noteq> ''Image of '' @ '' Popcorn Holder''"
proof -
  have first_name: "strip '' Popcorn Holder'' = ''Popcorn Holder''"
    by code_simp
  have second_name: "strip ''Gumball Coat Rack'' = ''Gumball Coat Rack''"
    by code_simp
  show ?thesis
    by (simp add: fetch_all_images_def fetch_product_image_no_answer rate_limit_sleep_negative
                  first_name second_name error_placeholder_def)
qed

end
